theory Spec2Isabelle
  imports Main
begin

section \<open>Data model (src/models/user.py)\<close>

text \<open>
  The three SQLAlchemy models become records and the two association tables become lists
  of id pairs. The primary key column \<open>id\<close> of each model is written \<open>u_id\<close>, \<open>r_id\<close>,
  \<open>p_id\<close>, and \<open>name\<close>/\<open>description\<close> get the same prefixes, because record fields are
  global constants. Nullable columns are options. The columns \<open>created_at\<close> and
  \<open>updated_at\<close> are filled by the wall clock and are left out of the model, also in
  \<open>to_dict\<close>.
\<close>

record permission =
  p_id :: int
  p_name :: string
  p_description :: "string option"

record role =
  r_id :: int
  r_name :: string
  r_description :: "string option"

record user =
  u_id :: int
  username :: string
  email :: string
  password :: string
  first_name :: "string option"
  last_name :: "string option"
  is_active :: bool

text \<open>
  The process state: the five tables of the database and the module-level dictionary
  \<open>reset_tokens\<close> of routes/auth.py. A row \<open>(u, r)\<close> of \<open>user_roles\<close> is
  \<open>(user_id, role_id)\<close>, a row \<open>(r, p)\<close> of \<open>role_permissions\<close> is \<open>(role_id, permission_id)\<close>.
\<close>

record state =
  users :: "user list"
  roles :: "role list"
  permissions :: "permission list"
  user_roles :: "(int \<times> int) list"
  role_permissions :: "(int \<times> int) list"
  reset_tokens :: "string \<rightharpoonup> int"

subsection \<open>Relationships\<close>

text \<open>
  \<open>user.roles\<close>, \<open>role.permissions\<close> and the backrefs \<open>role.users\<close>, \<open>permission.roles\<close>
  are joins through the association tables.
\<close>

definition User_roles :: "state \<Rightarrow> user \<Rightarrow> role list" where
  "User_roles st u = filter (\<lambda>r. (u_id u, r_id r) \<in> set (user_roles st)) (roles st)"

definition Role_permissions :: "state \<Rightarrow> role \<Rightarrow> permission list" where
  "Role_permissions st r =
     filter (\<lambda>p. (r_id r, p_id p) \<in> set (role_permissions st)) (permissions st)"

definition Role_users :: "state \<Rightarrow> role \<Rightarrow> user list" where
  "Role_users st r = filter (\<lambda>u. (u_id u, r_id r) \<in> set (user_roles st)) (users st)"

definition Permission_roles :: "state \<Rightarrow> permission \<Rightarrow> role list" where
  "Permission_roles st p =
     filter (\<lambda>r. (r_id r, p_id p) \<in> set (role_permissions st)) (roles st)"

subsection \<open>Exceptions\<close>

text \<open>
  The exceptions that reach a handler's \<open>except Exception as e\<close>, with Python's \<open>str(e)\<close>:
  werkzeug's \<open>NotFound\<close> from \<open>get_or_404\<close>; \<open>KeyError\<close> from \<open>del\<close> on a dictionary key that
  is not there (its string is the key between apostrophes, for a key of letters and
  digits); \<open>OverflowError\<close> from the sqlite3 driver when an integer bound into a query does
  not fit 64 bits; SQLAlchemy's \<open>StaleDataError\<close> when the row of an \<open>UPDATE\<close> is gone;
  \<open>ValueError\<close> from the hashing library.
\<close>

datatype exn = NotFound | KeyError string | OverflowError | StaleDataError | ValueError string

definition str_exn :: "exn \<Rightarrow> string" where
  "str_exn e = (case e of
       NotFound \<Rightarrow>
         ''404 Not Found: The requested URL was not found on the server. ''
         @ ''If you entered the URL manually please check your spelling and try again.''
     | KeyError k \<Rightarrow> [CHR 0x27] @ k @ [CHR 0x27]
     | OverflowError \<Rightarrow> ''Python int too large to convert to SQLite INTEGER''
     | StaleDataError \<Rightarrow>
         ''UPDATE statement on table '' @ [CHR 0x27] @ ''user'' @ [CHR 0x27]
         @ '' expected to update 1 row(s); 0 were matched.''
     | ValueError m \<Rightarrow> m)"

subsection \<open>Password hashing\<close>

text \<open>
  flask_bcrypt is a collaborator: its two functions are parameters of the model. Either
  may raise (a password the library refuses, a stored hash it cannot read), so each
  returns an exception or a value.
\<close>

record bcrypt =
  generate_password_hash :: "string \<Rightarrow> exn + string"
  check_password_hash :: "string \<Rightarrow> string \<Rightarrow> exn + bool"

definition set_password :: "bcrypt \<Rightarrow> user \<Rightarrow> string \<Rightarrow> exn + user" where
  "set_password bc u pw =
     (case generate_password_hash bc pw of
        Inl e \<Rightarrow> Inl e
      | Inr h \<Rightarrow> Inr (u\<lparr>password := h\<rparr>))"


subsection \<open>Permission resolution\<close>

text \<open>
  \<open>User.has_permission\<close>: two nested \<open>for\<close> loops that return \<open>True\<close> at the first
  permission whose name matches, \<open>False\<close> after both are exhausted.
\<close>

fun has_permission_inner :: "permission list \<Rightarrow> string \<Rightarrow> bool" where
  "has_permission_inner [] permission_name = False"
| "has_permission_inner (p # ps) permission_name =
     (if p_name p = permission_name then True else has_permission_inner ps permission_name)"

fun has_permission_outer :: "state \<Rightarrow> role list \<Rightarrow> string \<Rightarrow> bool" where
  "has_permission_outer st [] permission_name = False"
| "has_permission_outer st (r # rs) permission_name =
     (if has_permission_inner (Role_permissions st r) permission_name then True
      else has_permission_outer st rs permission_name)"

definition has_permission :: "state \<Rightarrow> user \<Rightarrow> string \<Rightarrow> bool" where
  "has_permission st u permission_name =
     has_permission_outer st (User_roles st u) permission_name"

text \<open>
  \<open>User.get_permissions\<close>: the names are collected in a Python set and returned as a
  list. The order of that list is not fixed by Python; the model keeps the order of
  first insertion.
\<close>

fun get_permissions_inner :: "permission list \<Rightarrow> string list \<Rightarrow> string list" where
  "get_permissions_inner [] acc = acc"
| "get_permissions_inner (p # ps) acc =
     get_permissions_inner ps (if p_name p \<in> set acc then acc else acc @ [p_name p])"

fun get_permissions_outer :: "state \<Rightarrow> role list \<Rightarrow> string list \<Rightarrow> string list" where
  "get_permissions_outer st [] acc = acc"
| "get_permissions_outer st (r # rs) acc =
     get_permissions_outer st rs (get_permissions_inner (Role_permissions st r) acc)"

definition get_permissions :: "state \<Rightarrow> user \<Rightarrow> string list" where
  "get_permissions st u = get_permissions_outer st (User_roles st u) []"

section \<open>Requests, responses and exceptions\<close>

text \<open>
  \<open>jsonify(...)\<close> builds a JSON object; a handler returns it with a status code.
\<close>

datatype jval =
  JNull | JBool bool | JInt int | JStr string | JList "jval list"
| JObj "(string \<times> jval) list"

type_synonym response = "jval \<times> nat"

text \<open>Python's \<open>str\<close> on an integer, used for the JWT identity and inside f-strings.\<close>

definition digit_char :: "nat \<Rightarrow> char" where
  "digit_char d = ''0123456789'' ! d"

fun str_nat :: "nat \<Rightarrow> string" where
  "str_nat n = (if n < 10 then [digit_char n] else str_nat (n div 10) @ [digit_char (n mod 10)])"

declare str_nat.simps [simp del]


text \<open>
  Request bodies are modelled at the types the handlers expect: a field is absent
  (\<open>None\<close>) or present with a string, an integer, a boolean or a list of ids.
  \<open>not data.get(k)\<close> holds for an absent key and for a falsy value: the empty string,
  the integer zero.
\<close>

definition truthy_str :: "string option \<Rightarrow> bool" where
  "truthy_str x = (case x of None \<Rightarrow> False | Some s \<Rightarrow> s \<noteq> [])"

definition truthy_int :: "int option \<Rightarrow> bool" where
  "truthy_int x = (case x of None \<Rightarrow> False | Some i \<Rightarrow> i \<noteq> 0)"

record user_update =
  upd_username :: "string option"
  upd_email :: "string option"
  upd_first_name :: "string option"
  upd_last_name :: "string option"
  upd_is_active :: "bool option"
  upd_password :: "string option"
  upd_role_ids :: "int list option"

record role_update =
  upd_name :: "string option"
  upd_description :: "string option"
  upd_permission_ids :: "int list option"

text \<open>
  \<open>get_or_404\<close> raises werkzeug's \<open>NotFound\<close>. Every handler that calls it does so inside
  \<open>try: ... except Exception as e\<close>, and \<open>NotFound\<close> is an \<open>Exception\<close>: the handler
  catches it, rolls the session back and answers 500 with \<open>str(e)\<close>.
\<close>

definition get_or_404 :: "'a option \<Rightarrow> exn + 'a" where
  "get_or_404 x = (case x of None \<Rightarrow> Inl NotFound | Some y \<Rightarrow> Inr y)"

definition handle_exception :: "exn \<Rightarrow> response" where
  "handle_exception e = (JObj [(''error'', JStr (str_exn e))], 500)"

subsection \<open>Queries and session operations\<close>

definition User_query_get :: "state \<Rightarrow> int \<Rightarrow> user option" where
  "User_query_get st i = find (\<lambda>u. u_id u = i) (users st)"

definition Role_query_get :: "state \<Rightarrow> int \<Rightarrow> role option" where
  "Role_query_get st i = find (\<lambda>r. r_id r = i) (roles st)"

definition Permission_query_get :: "state \<Rightarrow> int \<Rightarrow> permission option" where
  "Permission_query_get st i = find (\<lambda>p. p_id p = i) (permissions st)"

text \<open>
  Committing a changed row rewrites the row with that primary key. Assigning a
  collection to \<open>user.roles\<close> or \<open>role.permissions\<close> replaces the owner's rows of the
  association table. Deleting an object deletes its row and, as SQLAlchemy does for a
  \<open>secondary\<close> relationship, its rows of the association tables; no row of another
  model's table is touched.
\<close>

definition commit_user :: "state \<Rightarrow> user \<Rightarrow> state" where
  "commit_user st user' =
     st\<lparr>users := map (\<lambda>u. if u_id u = u_id user' then user' else u) (users st)\<rparr>"

definition commit_role :: "state \<Rightarrow> role \<Rightarrow> state" where
  "commit_role st role' =
     st\<lparr>roles := map (\<lambda>r. if r_id r = r_id role' then role' else r) (roles st)\<rparr>"

definition assign_User_roles :: "state \<Rightarrow> user \<Rightarrow> role list \<Rightarrow> state" where
  "assign_User_roles st u rs =
     st\<lparr>user_roles := filter (\<lambda>(ui, ri). ui \<noteq> u_id u) (user_roles st)
                        @ map (\<lambda>r. (u_id u, r_id r)) rs\<rparr>"

definition assign_Role_permissions :: "state \<Rightarrow> role \<Rightarrow> permission list \<Rightarrow> state" where
  "assign_Role_permissions st r ps =
     st\<lparr>role_permissions := filter (\<lambda>(ri, pi). ri \<noteq> r_id r) (role_permissions st)
                              @ map (\<lambda>p. (r_id r, p_id p)) ps\<rparr>"

definition session_delete_user :: "state \<Rightarrow> user \<Rightarrow> state" where
  "session_delete_user st u =
     st\<lparr>users := filter (\<lambda>v. u_id v \<noteq> u_id u) (users st),
        user_roles := filter (\<lambda>(ui, ri). ui \<noteq> u_id u) (user_roles st)\<rparr>"

definition session_delete_role :: "state \<Rightarrow> role \<Rightarrow> state" where
  "session_delete_role st r =
     st\<lparr>roles := filter (\<lambda>q. r_id q \<noteq> r_id r) (roles st),
        user_roles := filter (\<lambda>(ui, ri). ri \<noteq> r_id r) (user_roles st),
        role_permissions := filter (\<lambda>(ri, pi). ri \<noteq> r_id r) (role_permissions st)\<rparr>"

definition session_delete_permission :: "state \<Rightarrow> permission \<Rightarrow> state" where
  "session_delete_permission st p =
     st\<lparr>permissions := filter (\<lambda>q. p_id q \<noteq> p_id p) (permissions st),
        role_permissions := filter (\<lambda>(ri, pi). pi \<noteq> p_id p) (role_permissions st)\<rparr>"

subsection \<open>to_dict\<close>

definition opt_str :: "string option \<Rightarrow> jval" where
  "opt_str x = (case x of None \<Rightarrow> JNull | Some s \<Rightarrow> JStr s)"

definition permission_to_dict :: "permission \<Rightarrow> jval" where
  "permission_to_dict p =
     JObj [(''id'', JInt (p_id p)), (''name'', JStr (p_name p)),
           (''description'', opt_str (p_description p))]"

definition role_to_dict :: "state \<Rightarrow> role \<Rightarrow> bool \<Rightarrow> jval" where
  "role_to_dict st r include_permissions =
     JObj ([(''id'', JInt (r_id r)), (''name'', JStr (r_name r)),
            (''description'', opt_str (r_description r))]
           @ (if include_permissions
              then [(''permissions'', JList (map permission_to_dict (Role_permissions st r)))]
              else []))"

definition user_to_dict :: "state \<Rightarrow> user \<Rightarrow> bool \<Rightarrow> jval" where
  "user_to_dict st u include_roles =
     JObj ([(''id'', JInt (u_id u)), (''username'', JStr (username u)),
            (''email'', JStr (email u)), (''first_name'', opt_str (first_name u)),
            (''last_name'', opt_str (last_name u)), (''is_active'', JBool (is_active u))]
           @ (if include_roles
              then [(''roles'', JList (map (\<lambda>r. role_to_dict st r False) (User_roles st u))),
                    (''permissions'', JList (map JStr (get_permissions st u)))]
              else []))"

section \<open>Authorization middleware (routes/user.py and routes/role.py)\<close>

text \<open>
  \<open>require_permission\<close> is defined twice, with the same text, once in each routes
  module. \<open>@jwt_required()\<close> has already verified the token when the body runs;
  \<open>user_id\<close> is the verified identity, \<open>int(get_jwt_identity())\<close>. The wrapped handler
  \<open>f\<close> reads the same identity from the request context, so it receives it as its first
  argument here.
\<close>

definition require_permission ::
  "string \<Rightarrow> (int \<Rightarrow> state \<Rightarrow> response \<times> state) \<Rightarrow> int \<Rightarrow> state \<Rightarrow> response \<times> state" where
  "require_permission permission_name f user_id st =
     (case User_query_get st user_id of
        None \<Rightarrow> ((JObj [(''error'', JStr ''User not found'')], 404), st)
      | Some user \<Rightarrow>
          if \<not> has_permission st user permission_name
          then ((JObj [(''error'', JStr ''Insufficient permissions'')], 403), st)
          else f user_id st)"

definition require_permission_role ::
  "string \<Rightarrow> (int \<Rightarrow> state \<Rightarrow> response \<times> state) \<Rightarrow> int \<Rightarrow> state \<Rightarrow> response \<times> state" where
  "require_permission_role permission_name f user_id st =
     (case User_query_get st user_id of
        None \<Rightarrow> ((JObj [(''error'', JStr ''User not found'')], 404), st)
      | Some user \<Rightarrow>
          if \<not> has_permission st user permission_name
          then ((JObj [(''error'', JStr ''Insufficient permissions'')], 403), st)
          else f user_id st)"

section \<open>User management (routes/user.py)\<close>

text \<open>
  The database is SQLite (main.py): an integer bound into a query must fit a signed
  64-bit integer, or the driver raises \<open>OverflowError\<close>. \<open>Role.id.in_(data['role_ids'])\<close>
  and \<open>Permission.id.in_(data['permission_ids'])\<close> bind every id of the list.
\<close>

definition sqlite_int :: "int \<Rightarrow> bool" where
  "sqlite_int i \<longleftrightarrow> - (2 ^ 63) \<le> i \<and> i < 2 ^ 63"

definition Role_query_in :: "state \<Rightarrow> int list \<Rightarrow> exn + role list" where
  "Role_query_in st ids =
     (if list_all sqlite_int ids then Inr (filter (\<lambda>r. r_id r \<in> set ids) (roles st))
      else Inl OverflowError)"

definition Permission_query_in :: "state \<Rightarrow> int list \<Rightarrow> exn + permission list" where
  "Permission_query_in st ids =
     (if list_all sqlite_int ids then Inr (filter (\<lambda>p. p_id p \<in> set ids) (permissions st))
      else Inl OverflowError)"

text \<open>
  \<open>update_user\<close> changes the session's user object field by field and commits at the end.
  An early \<open>return\<close> or an exception (from \<open>set_password\<close>, from the roles query) leaves
  the database as it was.
\<close>

definition update_user :: "bcrypt \<Rightarrow> int \<Rightarrow> user_update \<Rightarrow> state \<Rightarrow> response \<times> state" where
  "update_user bc user_id data st =
     (case get_or_404 (User_query_get st user_id) of
        Inl e \<Rightarrow> (handle_exception e, st)
      | Inr user \<Rightarrow>
          if (case upd_username data of None \<Rightarrow> False
              | Some n \<Rightarrow> find (\<lambda>u. username u = n \<and> u_id u \<noteq> user_id) (users st) \<noteq> None)
          then ((JObj [(''error'', JStr ''Username already exists'')], 400), st)
          else
            let user = (case upd_username data of None \<Rightarrow> user
                        | Some n \<Rightarrow> user\<lparr>username := n\<rparr>)
            in
            if (case upd_email data of None \<Rightarrow> False
                | Some e \<Rightarrow> find (\<lambda>u. email u = e \<and> u_id u \<noteq> user_id) (users st) \<noteq> None)
            then ((JObj [(''error'', JStr ''Email already exists'')], 400), st)
            else
              let user = (case upd_email data of None \<Rightarrow> user
                          | Some e \<Rightarrow> user\<lparr>email := e\<rparr>);
                  user = (case upd_first_name data of None \<Rightarrow> user
                          | Some x \<Rightarrow> user\<lparr>first_name := Some x\<rparr>);
                  user = (case upd_last_name data of None \<Rightarrow> user
                          | Some x \<Rightarrow> user\<lparr>last_name := Some x\<rparr>);
                  user = (case upd_is_active data of None \<Rightarrow> user
                          | Some b \<Rightarrow> user\<lparr>is_active := b\<rparr>)
              in
              (case (if truthy_str (upd_password data)
                     then (case upd_password data of None \<Rightarrow> Inr user
                           | Some pw \<Rightarrow> set_password bc user pw)
                     else Inr user) of
                 Inl e \<Rightarrow> (handle_exception e, st)
               | Inr user \<Rightarrow>
                   (case upd_role_ids data of
                      None \<Rightarrow>
                        let st = commit_user st user
                        in ((JObj [(''message'', JStr ''User updated successfully''),
                                   (''user'', user_to_dict st user True)], 200), st)
                    | Some role_ids \<Rightarrow>
                        (case Role_query_in st role_ids of
                           Inl e \<Rightarrow> (handle_exception e, st)
                         | Inr roles' \<Rightarrow>
                             let st = assign_User_roles (commit_user st user) user roles'
                             in ((JObj [(''message'', JStr ''User updated successfully''),
                                        (''user'', user_to_dict st user True)], 200), st)))))"

text \<open>
  \<open>delete_user\<close> reads the caller's identity itself (\<open>current_user_id\<close>) and compares it
  with the path parameter before it looks the user up.
\<close>

definition delete_user :: "int \<Rightarrow> int \<Rightarrow> state \<Rightarrow> response \<times> state" where
  "delete_user user_id current_user_id st =
     (if current_user_id = user_id
      then ((JObj [(''error'', JStr ''Cannot delete your own account'')], 400), st)
      else
        (case get_or_404 (User_query_get st user_id) of
           Inl e \<Rightarrow> (handle_exception e, st)
         | Inr user \<Rightarrow>
             ((JObj [(''message'', JStr ''User deleted successfully'')], 200),
              session_delete_user st user)))"

definition assign_role_to_user :: "int \<Rightarrow> int option \<Rightarrow> state \<Rightarrow> response \<times> state" where
  "assign_role_to_user user_id data_role_id st =
     (case get_or_404 (User_query_get st user_id) of
        Inl e \<Rightarrow> (handle_exception e, st)
      | Inr user \<Rightarrow>
          if \<not> truthy_int data_role_id
          then ((JObj [(''error'', JStr ''role_id is required'')], 400), st)
          else
            (case get_or_404 (Option.bind data_role_id (Role_query_get st)) of
               Inl e \<Rightarrow> (handle_exception e, st)
             | Inr role \<Rightarrow>
                 if role \<notin> set (User_roles st user)
                 then
                   let st = st\<lparr>user_roles := user_roles st @ [(u_id user, r_id role)]\<rparr>
                   in ((JObj [(''message'', JStr (''Role '' @ r_name role
                                 @ '' assigned to user '' @ username user)),
                              (''user'', user_to_dict st user True)], 200), st)
                 else ((JObj [(''error'', JStr ''User already has this role'')], 400), st)))"

definition remove_role_from_user :: "int \<Rightarrow> int \<Rightarrow> state \<Rightarrow> response \<times> state" where
  "remove_role_from_user user_id role_id st =
     (case get_or_404 (User_query_get st user_id) of
        Inl e \<Rightarrow> (handle_exception e, st)
      | Inr user \<Rightarrow>
          (case get_or_404 (Role_query_get st role_id) of
             Inl e \<Rightarrow> (handle_exception e, st)
           | Inr role \<Rightarrow>
               if role \<in> set (User_roles st user)
               then
                 let st = st\<lparr>user_roles :=
                            filter (\<lambda>row. row \<noteq> (u_id user, r_id role)) (user_roles st)\<rparr>
                 in ((JObj [(''message'', JStr (''Role '' @ r_name role
                               @ '' removed from user '' @ username user)),
                            (''user'', user_to_dict st user True)], 200), st)
               else ((JObj [(''error'', JStr ''User does not have this role'')], 400), st)))"

section \<open>Role and permission management (routes/role.py)\<close>

definition update_role :: "int \<Rightarrow> role_update \<Rightarrow> state \<Rightarrow> response \<times> state" where
  "update_role role_id data st =
     (case get_or_404 (Role_query_get st role_id) of
        Inl e \<Rightarrow> (handle_exception e, st)
      | Inr role \<Rightarrow>
          if (case upd_name data of None \<Rightarrow> False
              | Some n \<Rightarrow> find (\<lambda>r. r_name r = n \<and> r_id r \<noteq> role_id) (roles st) \<noteq> None)
          then ((JObj [(''error'', JStr ''Role name already exists'')], 400), st)
          else
            let role = (case upd_name data of None \<Rightarrow> role
                        | Some n \<Rightarrow> role\<lparr>r_name := n\<rparr>);
                role = (case upd_description data of None \<Rightarrow> role
                        | Some d \<Rightarrow> role\<lparr>r_description := Some d\<rparr>)
            in
            (case upd_permission_ids data of
               None \<Rightarrow>
                 let st = commit_role st role
                 in ((JObj [(''message'', JStr ''Role updated successfully''),
                            (''role'', role_to_dict st role True)], 200), st)
             | Some permission_ids \<Rightarrow>
                 (case Permission_query_in st permission_ids of
                    Inl e \<Rightarrow> (handle_exception e, st)
                  | Inr permissions' \<Rightarrow>
                      let st = assign_Role_permissions (commit_role st role) role permissions'
                      in ((JObj [(''message'', JStr ''Role updated successfully''),
                                 (''role'', role_to_dict st role True)], 200), st))))"

definition delete_role :: "int \<Rightarrow> state \<Rightarrow> response \<times> state" where
  "delete_role role_id st =
     (case get_or_404 (Role_query_get st role_id) of
        Inl e \<Rightarrow> (handle_exception e, st)
      | Inr role \<Rightarrow>
          if Role_users st role \<noteq> []
          then ((JObj [(''error'', JStr (''Cannot delete role. It is assigned to ''
                          @ str_nat (length (Role_users st role)) @ '' user(s)''))], 400), st)
          else ((JObj [(''message'', JStr ''Role deleted successfully'')], 200),
                session_delete_role st role))"

definition assign_permission_to_role :: "int \<Rightarrow> int option \<Rightarrow> state \<Rightarrow> response \<times> state" where
  "assign_permission_to_role role_id data_permission_id st =
     (case get_or_404 (Role_query_get st role_id) of
        Inl e \<Rightarrow> (handle_exception e, st)
      | Inr role \<Rightarrow>
          if \<not> truthy_int data_permission_id
          then ((JObj [(''error'', JStr ''permission_id is required'')], 400), st)
          else
            (case get_or_404 (Option.bind data_permission_id (Permission_query_get st)) of
               Inl e \<Rightarrow> (handle_exception e, st)
             | Inr permission \<Rightarrow>
                 if permission \<notin> set (Role_permissions st role)
                 then
                   let st = st\<lparr>role_permissions :=
                              role_permissions st @ [(r_id role, p_id permission)]\<rparr>
                   in ((JObj [(''message'', JStr (''Permission '' @ p_name permission
                                 @ '' assigned to role '' @ r_name role)),
                              (''role'', role_to_dict st role True)], 200), st)
                 else ((JObj [(''error'', JStr ''Role already has this permission'')], 400),
                       st)))"

definition remove_permission_from_role :: "int \<Rightarrow> int \<Rightarrow> state \<Rightarrow> response \<times> state" where
  "remove_permission_from_role role_id permission_id st =
     (case get_or_404 (Role_query_get st role_id) of
        Inl e \<Rightarrow> (handle_exception e, st)
      | Inr role \<Rightarrow>
          (case get_or_404 (Permission_query_get st permission_id) of
             Inl e \<Rightarrow> (handle_exception e, st)
           | Inr permission \<Rightarrow>
               if permission \<in> set (Role_permissions st role)
               then
                 let st = st\<lparr>role_permissions :=
                            filter (\<lambda>row. row \<noteq> (r_id role, p_id permission))
                              (role_permissions st)\<rparr>
                 in ((JObj [(''message'', JStr (''Permission '' @ p_name permission
                               @ '' removed from role '' @ r_name role)),
                            (''role'', role_to_dict st role True)], 200), st)
               else ((JObj [(''error'', JStr ''Role does not have this permission'')], 400),
                     st)))"

definition delete_permission :: "int \<Rightarrow> state \<Rightarrow> response \<times> state" where
  "delete_permission permission_id st =
     (case get_or_404 (Permission_query_get st permission_id) of
        Inl e \<Rightarrow> (handle_exception e, st)
      | Inr permission \<Rightarrow>
          if Permission_roles st permission \<noteq> []
          then ((JObj [(''error'', JStr (''Cannot delete permission. It is assigned to ''
                          @ str_nat (length (Permission_roles st permission))
                          @ '' role(s)''))], 400), st)
          else ((JObj [(''message'', JStr ''Permission deleted successfully'')], 200),
                session_delete_permission st permission))"

section \<open>Authentication (routes/auth.py)\<close>



text \<open>
  \<open>forgot_password\<close> draws 32 random characters; the drawn string is the parameter
  \<open>token\<close>.
\<close>

definition forgot_password :: "string \<Rightarrow> string option \<Rightarrow> state \<Rightarrow> response \<times> state" where
  "forgot_password token data_email st =
     (if \<not> truthy_str data_email
      then ((JObj [(''error'', JStr ''Email is required'')], 400), st)
      else
        (case Option.bind data_email (\<lambda>e. find (\<lambda>u. email u = e) (users st)) of
           None \<Rightarrow>
             ((JObj [(''message'',
                      JStr ''If the email exists, a reset token has been generated'')], 200), st)
         | Some user \<Rightarrow>
             ((JObj [(''message'', JStr ''Password reset token generated''),
                     (''reset_token'', JStr token)], 200),
              st\<lparr>reset_tokens := (reset_tokens st)(token \<mapsto> u_id user)\<rparr>)))"

text \<open>
  \<open>reset_password\<close> reads the dictionary at the start (\<open>reset_tokens.get\<close>, which gives
  \<open>None\<close> for an absent token; \<open>not user_id\<close> also holds for the id zero) and deletes the
  token at the end, after hashing and commit, with no lock around the two. The handler is
  therefore modelled in two steps. \<open>reset_password_lookup\<close> is the part up to the user
  lookup: it ends the request with a response, or hands on the user object, the token and
  the new password. \<open>reset_password_finish\<close> is the rest, run on the state as it is by
  then: \<open>set_password\<close> (which may raise); the commit, which writes the changed column
  \<open>password\<close> of the user's row, writes nothing when the hash is the stored one, and
  raises \<open>StaleDataError\<close> when the row is gone; and \<open>del reset_tokens[token]\<close>, which
  raises \<open>KeyError\<close> when the token is gone. An exception is answered 500; the rollback
  does not undo a commit already made. A server that handles one request at a time runs
  the two steps back to back: \<open>reset_password\<close>.
\<close>

definition reset_password_lookup ::
  "string option \<Rightarrow> string option \<Rightarrow> state \<Rightarrow> response + (user \<times> string \<times> string)" where
  "reset_password_lookup data_token data_new_password st =
     (if \<not> truthy_str data_token \<or> \<not> truthy_str data_new_password
      then Inl (JObj [(''error'', JStr ''Token and new password are required'')], 400)
      else
        (case (data_token, data_new_password) of
           (Some token, Some new_password) \<Rightarrow>
             (case reset_tokens st token of
                None \<Rightarrow> Inl (JObj [(''error'', JStr ''Invalid or expired token'')], 400)
              | Some user_id \<Rightarrow>
                  if user_id = 0
                  then Inl (JObj [(''error'', JStr ''Invalid or expired token'')], 400)
                  else
                    (case User_query_get st user_id of
                       None \<Rightarrow> Inl (JObj [(''error'', JStr ''User not found'')], 404)
                     | Some user \<Rightarrow> Inr (user, token, new_password)))
         | _ \<Rightarrow> Inl (JObj [(''error'', JStr ''Token and new password are required'')], 400)))"

definition commit_password :: "state \<Rightarrow> user \<Rightarrow> exn + state" where
  "commit_password st user' =
     (case User_query_get st (u_id user') of
        None \<Rightarrow> Inl StaleDataError
      | Some row \<Rightarrow>
          Inr (st\<lparr>users := map (\<lambda>u. if u_id u = u_id user'
                                      then u\<lparr>password := password user'\<rparr> else u)
                              (users st)\<rparr>))"

definition reset_password_finish ::
  "bcrypt \<Rightarrow> user \<times> string \<times> string \<Rightarrow> state \<Rightarrow> response \<times> state" where
  "reset_password_finish bc k st =
     (case k of (user, token, new_password) \<Rightarrow>
        (case set_password bc user new_password of
           Inl e \<Rightarrow> (handle_exception e, st)
         | Inr user' \<Rightarrow>
             (case (if password user' = password user then Inr st
                    else commit_password st user') of
                Inl e \<Rightarrow> (handle_exception e, st)
              | Inr st \<Rightarrow>
                  (case reset_tokens st token of
                     None \<Rightarrow> (handle_exception (KeyError token), st)
                   | Some _ \<Rightarrow>
                       ((JObj [(''message'', JStr ''Password reset successfully'')], 200),
                        st\<lparr>reset_tokens := (reset_tokens st)(token := None)\<rparr>)))))"

definition reset_password ::
  "bcrypt \<Rightarrow> string option \<Rightarrow> string option \<Rightarrow> state \<Rightarrow> response \<times> state" where
  "reset_password bc data_token data_new_password st =
     (case reset_password_lookup data_token data_new_password st of
        Inl r \<Rightarrow> (r, st)
      | Inr k \<Rightarrow> reset_password_finish bc k st)"

section \<open>The gated endpoints\<close>

text \<open>
  Each handler above is registered under its decorator \<open>@require_permission(...)\<close>. The
  endpoint takes the path parameters, the request body, the verified identity and the
  state.
\<close>

definition update_user_route ::
  "bcrypt \<Rightarrow> int \<Rightarrow> user_update \<Rightarrow> int \<Rightarrow> state \<Rightarrow> response \<times> state" where
  "update_user_route bc user_id data =
     require_permission ''user_write'' (\<lambda>_. update_user bc user_id data)"

definition delete_user_route :: "int \<Rightarrow> int \<Rightarrow> state \<Rightarrow> response \<times> state" where
  "delete_user_route user_id = require_permission ''user_delete'' (delete_user user_id)"

definition assign_role_to_user_route ::
  "int \<Rightarrow> int option \<Rightarrow> int \<Rightarrow> state \<Rightarrow> response \<times> state" where
  "assign_role_to_user_route user_id data_role_id =
     require_permission ''user_write'' (\<lambda>_. assign_role_to_user user_id data_role_id)"

definition remove_role_from_user_route :: "int \<Rightarrow> int \<Rightarrow> int \<Rightarrow> state \<Rightarrow> response \<times> state" where
  "remove_role_from_user_route user_id role_id =
     require_permission ''user_write'' (\<lambda>_. remove_role_from_user user_id role_id)"

definition update_role_route :: "int \<Rightarrow> role_update \<Rightarrow> int \<Rightarrow> state \<Rightarrow> response \<times> state" where
  "update_role_route role_id data =
     require_permission_role ''role_write'' (\<lambda>_. update_role role_id data)"


definition assign_permission_to_role_route ::
  "int \<Rightarrow> int option \<Rightarrow> int \<Rightarrow> state \<Rightarrow> response \<times> state" where
  "assign_permission_to_role_route role_id data_permission_id =
     require_permission_role ''role_write''
       (\<lambda>_. assign_permission_to_role role_id data_permission_id)"

definition remove_permission_from_role_route ::
  "int \<Rightarrow> int \<Rightarrow> int \<Rightarrow> state \<Rightarrow> response \<times> state" where
  "remove_permission_from_role_route role_id permission_id =
     require_permission_role ''role_write''
       (\<lambda>_. remove_permission_from_role role_id permission_id)"

definition delete_permission_route :: "int \<Rightarrow> int \<Rightarrow> state \<Rightarrow> response \<times> state" where
  "delete_permission_route permission_id =
     require_permission_role ''permission_delete'' (\<lambda>_. delete_permission permission_id)"

text \<open>Reading a field of a response body and the status of a result.\<close>

definition json_get :: "jval \<Rightarrow> string \<Rightarrow> jval option" where
  "json_get j k = (case j of JObj kvs \<Rightarrow> map_of kvs k | _ \<Rightarrow> None)"

definition status :: "response \<times> state \<Rightarrow> nat" where
  "status res = snd (fst res)"

section \<open>A seeded database\<close>

text \<open>
  The roles that \<open>init_database\<close> (main.py) creates and the first six of its
  permissions, with the three users of seed_data.py. The database numbers rows from 1 in
  the order of insertion. \<open>seed_bcrypt\<close> stands in for the hashing library.
\<close>

definition seed_bcrypt :: bcrypt where
  "seed_bcrypt =
     \<lparr>generate_password_hash =
        (\<lambda>pw. if length pw > 72
              then Inl (ValueError ''password cannot be longer than 72 bytes'')
              else Inr (''$2b$'' @ pw)),
      check_password_hash =
        (\<lambda>h pw. if length pw > 72
                then Inl (ValueError ''password cannot be longer than 72 bytes'')
                else Inr (h = ''$2b$'' @ pw))\<rparr>"



definition seed_create_access_token :: "string \<Rightarrow> string" where
  "seed_create_access_token identity = ''jwt.'' @ identity"

definition seed_permissions :: "permission list" where
  "seed_permissions =
    [\<lparr>p_id = 1, p_name = ''user_read'', p_description = Some ''Read user information''\<rparr>,
     \<lparr>p_id = 2, p_name = ''user_write'', p_description = Some ''Create and update users''\<rparr>,
     \<lparr>p_id = 3, p_name = ''user_delete'', p_description = Some ''Delete users''\<rparr>,
     \<lparr>p_id = 4, p_name = ''role_read'', p_description = Some ''Read role information''\<rparr>,
     \<lparr>p_id = 5, p_name = ''role_write'', p_description = Some ''Create and update roles''\<rparr>,
     \<lparr>p_id = 6, p_name = ''role_delete'', p_description = Some ''Delete roles''\<rparr>]"

definition admin_role :: role where
  "admin_role = \<lparr>r_id = 1, r_name = ''Admin'',
                  r_description = Some ''System administrator with full access''\<rparr>"

definition hr_role :: role where
  "hr_role = \<lparr>r_id = 2, r_name = ''HR'', r_description = Some ''Human resources manager''\<rparr>"

definition employee_role :: role where
  "employee_role = \<lparr>r_id = 3, r_name = ''Employee'',
                     r_description = Some ''Regular employee''\<rparr>"

definition admin_user :: user where
  "admin_user = \<lparr>u_id = 1, username = ''admin'', email = ''admin@hrms.com'',
                  password = ''$2b$admin123'', first_name = Some ''System'',
                  last_name = Some ''Administrator'', is_active = True\<rparr>"

definition hr_user :: user where
  "hr_user = \<lparr>u_id = 2, username = ''hr_manager'', email = ''hr@hrms.com'',
               password = ''$2b$hr123'', first_name = Some ''HR'',
               last_name = Some ''Manager'', is_active = True\<rparr>"

definition employee_user :: user where
  "employee_user = \<lparr>u_id = 3, username = ''john_doe'', email = ''john.doe@hrms.com'',
                     password = ''$2b$employee123'', first_name = Some ''John'',
                     last_name = Some ''Doe'', is_active = True\<rparr>"

definition seed_state :: state where
  "seed_state =
    \<lparr>users = [admin_user, hr_user, employee_user],
     roles = [admin_role, hr_role, employee_role],
     permissions = seed_permissions,
     user_roles = [(1, 1), (2, 2), (3, 3)],
     role_permissions = [(1, 1), (1, 2), (1, 3), (1, 4), (1, 5), (1, 6),
                         (2, 1), (2, 2), (2, 4), (3, 1)],
     reset_tokens = Map.empty\<rparr>"

text \<open>
  Further states: the seeded database after \<open>forgot_password\<close> has stored the token
  \<open>tok\<close> for hr_manager; the same after the administrator has then deleted hr_manager;
  and the seeded database with john_doe deactivated.
\<close>

definition pending_reset_state :: state where
  "pending_reset_state = snd (forgot_password ''tok'' (Some ''hr@hrms.com'') seed_state)"

definition orphan_token_state :: state where
  "orphan_token_state = snd (delete_user_route 2 1 pending_reset_state)"




text \<open>A password of 73 characters, one more than \<open>seed_bcrypt\<close> accepts.\<close>

definition long_password :: string where
  "long_password = replicate 73 CHR ''a''"



section \<open>Unfolding rules\<close>

lemmas seed_defs = seed_state_def admin_user_def hr_user_def employee_user_def
  admin_role_def hr_role_def employee_role_def seed_permissions_def seed_bcrypt_def
  seed_create_access_token_def

lemmas rel_defs = User_roles_def Role_permissions_def Role_users_def Permission_roles_def
  User_query_get_def Role_query_get_def Permission_query_get_def

section \<open>Facts about queries and session operations\<close>

lemma find_Some_D: "find P xs = Some x \<Longrightarrow> x \<in> set xs \<and> P x"
  by (induction xs) (auto split: if_splits)

lemma find_filter_out:
  "find (\<lambda>v. f v = i) (filter (\<lambda>v. f v \<noteq> i) xs) = None"
  by (induction xs) auto

lemma find_password_written:
  "find (\<lambda>v. u_id v = i) xs = Some u \<Longrightarrow>
   find (\<lambda>v. u_id v = i) (map (\<lambda>v. if u_id v = i then v\<lparr>password := h\<rparr> else v) xs)
     = Some (u\<lparr>password := h\<rparr>)"
  by (induction xs) (auto split: if_splits)

lemma pending_reset_state_eq:
  "pending_reset_state = seed_state\<lparr>reset_tokens := [''tok'' \<mapsto> 2]\<rparr>"
  by (simp add: pending_reset_state_def forgot_password_def truthy_str_def seed_defs)

lemma orphan_token_state_eq:
  "orphan_token_state
     = seed_state\<lparr>users := [admin_user, employee_user], user_roles := [(1, 1), (3, 3)],
                  reset_tokens := [''tok'' \<mapsto> 2]\<rparr>"
  by (simp add: orphan_token_state_def pending_reset_state_eq delete_user_route_def
      require_permission_def delete_user_def get_or_404_def session_delete_user_def
      has_permission_def seed_defs rel_defs)

lemma User_query_get_commit_password:
  assumes "User_query_get st user_id = Some user"
  shows "commit_password st (user\<lparr>password := h\<rparr>)
           = Inr (st\<lparr>users := map (\<lambda>v. if u_id v = user_id then v\<lparr>password := h\<rparr> else v)
                                   (users st)\<rparr>)"
proof -
  have id: "u_id user = user_id"
    using assms find_Some_D [of "\<lambda>u. u_id u = user_id" "users st" user]
    by (simp add: User_query_get_def)
  show ?thesis
    using assms by (simp add: commit_password_def id)
qed

lemma reset_password_found:
  assumes "token \<noteq> []" and "new_password \<noteq> []"
    and "reset_tokens st token = Some user_id" and "user_id \<noteq> 0"
    and "User_query_get st user_id = Some user"
  shows "reset_password bc (Some token) (Some new_password) st
           = reset_password_finish bc (user, token, new_password) st"
  using assms by (simp add: reset_password_def reset_password_lookup_def truthy_str_def)

lemma reset_password_finish_accepted:
  assumes "reset_tokens st token = Some user_id"
    and "User_query_get st user_id = Some user"
    and "generate_password_hash bc new_password = Inr h"
  shows "fst (reset_password_finish bc (user, token, new_password) st)
           = (JObj [(''message'', JStr ''Password reset successfully'')], 200)"
    and "User_query_get (snd (reset_password_finish bc (user, token, new_password) st)) user_id
           = Some (user\<lparr>password := h\<rparr>)"
    and "reset_tokens (snd (reset_password_finish bc (user, token, new_password) st))
           = (reset_tokens st)(token := None)"
  using assms
  by (auto simp: reset_password_finish_def set_password_def User_query_get_commit_password
      User_query_get_def find_password_written)




lemma roles_assign_User_roles [simp]: "roles (assign_User_roles st u rs) = roles st"
  by (simp add: assign_User_roles_def)

lemma permissions_assign_Role_permissions [simp]:
  "permissions (assign_Role_permissions st r ps) = permissions st"
  by (simp add: assign_Role_permissions_def)

lemma User_roles_commit_user [simp]: "User_roles (commit_user st u') v = User_roles st v"
  by (simp add: User_roles_def commit_user_def)

lemma roles_commit_user [simp]: "roles (commit_user st u') = roles st"
  by (simp add: commit_user_def)

lemma permissions_commit_role [simp]: "permissions (commit_role st r') = permissions st"
  by (simp add: commit_role_def)

lemma Role_permissions_commit_role [simp]:
  "Role_permissions (commit_role st role') q = Role_permissions st q"
  by (simp add: Role_permissions_def commit_role_def)



section \<open>Permission resolution is the union over the user's roles\<close>

lemma has_permission_inner_iff:
  "has_permission_inner ps n \<longleftrightarrow> n \<in> p_name ` set ps"
  by (induction ps) auto

lemma has_permission_outer_iff:
  "has_permission_outer st rs n \<longleftrightarrow>
     (\<exists>r \<in> set rs. n \<in> p_name ` set (Role_permissions st r))"
  by (induction rs) (auto simp: has_permission_inner_iff)

lemma set_get_permissions_inner:
  "set (get_permissions_inner ps acc) = set acc \<union> p_name ` set ps"
  by (induction ps arbitrary: acc) auto

lemma set_get_permissions_outer:
  "set (get_permissions_outer st rs acc) =
     set acc \<union> (\<Union>r \<in> set rs. p_name ` set (Role_permissions st r))"
  by (induction rs arbitrary: acc) (auto simp: set_get_permissions_inner)

lemma distinct_get_permissions_inner:
  "distinct acc \<Longrightarrow> distinct (get_permissions_inner ps acc)"
  by (induction ps arbitrary: acc) auto

lemma distinct_get_permissions_outer:
  "distinct acc \<Longrightarrow> distinct (get_permissions_outer st rs acc)"
  by (induction rs arbitrary: acc) (auto simp: distinct_get_permissions_inner)

text \<open>
  Claim C1. For every state, user \<open>u\<close> and permission name \<open>n\<close>, \<open>has_permission\<close>
  returns true exactly when some role among the user's roles has a permission named \<open>n\<close>
  in that state; equivalently \<open>n\<close> is in the user's effective permission set, which is
  the union of the permission-name sets of all the user's roles (no precedence between
  roles, no negative permissions).
\<close>

theorem has_permission_union:
  "(has_permission st u n \<longleftrightarrow>
      (\<exists>r \<in> set (User_roles st u). \<exists>p \<in> set (Role_permissions st r). p_name p = n))
   \<and> (has_permission st u n \<longleftrightarrow> n \<in> set (get_permissions st u))
   \<and> set (get_permissions st u) =
       (\<Union>r \<in> set (User_roles st u). p_name ` set (Role_permissions st r))"
  unfolding has_permission_def get_permissions_def
  by (auto simp: has_permission_outer_iff set_get_permissions_outer)

theorem has_permission_union_witness:
  "has_permission seed_state hr_user ''user_write''
   \<and> User_roles seed_state hr_user = [hr_role]
   \<and> map p_name (Role_permissions seed_state hr_role)
       = [''user_read'', ''user_write'', ''role_read'']
   \<and> get_permissions seed_state hr_user = [''user_read'', ''user_write'', ''role_read'']
   \<and> \<not> has_permission seed_state hr_user ''user_delete''"
  using has_permission_union [of seed_state hr_user "''user_write''"]
  by (simp add: has_permission_def get_permissions_def seed_defs rel_defs)

section \<open>Forgot-password: the two paths\<close>

text \<open>
  Claim C2 as stated: the response for an unknown email is identical to the response for
  a known email. On the seeded database the two responses differ, in the message and in
  the \<open>reset_token\<close> field.
\<close>

theorem forgot_password_distinguishable_counterexample:
  "fst (forgot_password ''tok'' (Some ''nobody@hrms.com'') seed_state)
     = (JObj [(''message'', JStr ''If the email exists, a reset token has been generated'')], 200)
   \<and> fst (forgot_password ''tok'' (Some ''admin@hrms.com'') seed_state)
     = (JObj [(''message'', JStr ''Password reset token generated''),
              (''reset_token'', JStr ''tok'')], 200)
   \<and> fst (forgot_password ''tok'' (Some ''nobody@hrms.com'') seed_state)
     \<noteq> fst (forgot_password ''tok'' (Some ''admin@hrms.com'') seed_state)"
  by (simp add: forgot_password_def truthy_str_def seed_defs)

text \<open>
  Claim C2, amended. For a request with a non-empty email, both paths answer with status
  200. When no user has the email, the body has no \<open>reset_token\<close> field and the state,
  the reset-token dictionary included, is unchanged. When a user has the email, the
  drawn token is stored for that user's id and, as the handler's comment announces for
  the demonstration, the same token is returned in the \<open>reset_token\<close> field of the body.
\<close>

theorem forgot_password_paths:
  assumes "e \<noteq> []"
  shows "(find (\<lambda>u. email u = e) (users st) = None \<longrightarrow>
            status (forgot_password token (Some e) st) = 200
          \<and> json_get (fst (fst (forgot_password token (Some e) st))) ''reset_token'' = None
          \<and> snd (forgot_password token (Some e) st) = st)
       \<and> (\<forall>u. find (\<lambda>u. email u = e) (users st) = Some u \<longrightarrow>
            status (forgot_password token (Some e) st) = 200
          \<and> json_get (fst (fst (forgot_password token (Some e) st))) ''reset_token''
              = Some (JStr token)
          \<and> snd (forgot_password token (Some e) st)
              = st\<lparr>reset_tokens := (reset_tokens st)(token \<mapsto> u_id u)\<rparr>)"
  using assms by (simp add: forgot_password_def truthy_str_def status_def json_get_def)

theorem forgot_password_paths_witness:
  "status (forgot_password ''tok'' (Some ''nobody@hrms.com'') seed_state) = 200
   \<and> json_get (fst (fst (forgot_password ''tok'' (Some ''nobody@hrms.com'') seed_state)))
        ''reset_token'' = None
   \<and> snd (forgot_password ''tok'' (Some ''nobody@hrms.com'') seed_state) = seed_state
   \<and> status (forgot_password ''tok'' (Some ''hr@hrms.com'') seed_state) = 200
   \<and> json_get (fst (fst (forgot_password ''tok'' (Some ''hr@hrms.com'') seed_state)))
        ''reset_token'' = Some (JStr ''tok'')
   \<and> reset_tokens (snd (forgot_password ''tok'' (Some ''hr@hrms.com'') seed_state)) ''tok''
        = Some 2"
proof -
  have a: "find (\<lambda>u. email u = ''nobody@hrms.com'') (users seed_state) = None"
    by (simp add: seed_defs)
  have b: "find (\<lambda>u. email u = ''hr@hrms.com'') (users seed_state) = Some hr_user"
    by (simp add: seed_defs)
  have c: "u_id hr_user = 2" by (simp add: seed_defs)
  show ?thesis
    using a b c forgot_password_paths [of "''nobody@hrms.com''" seed_state "''tok''"]
      forgot_password_paths [of "''hr@hrms.com''" seed_state "''tok''"]
    by simp
qed

section \<open>The middleware's three outcomes\<close>




section \<open>Referential guards on delete\<close>

text \<open>
  Claim C4. \<open>delete_role\<close> on an existing role that at least one user holds answers 400
  with a message carrying the number of those users and leaves the state unchanged;
  \<open>delete_permission\<close> on an existing permission that at least one role references does
  the same with the number of roles. When no user holds the role (no role references the
  permission), the delete answers 200, the row is gone, and the rows of the other tables
  are untouched: nothing is deleted in cascade.
\<close>

theorem delete_guards:
  "(\<forall>r. Role_query_get st role_id = Some r \<and> Role_users st r \<noteq> [] \<longrightarrow>
       delete_role role_id st
         = ((JObj [(''error'', JStr (''Cannot delete role. It is assigned to ''
                @ str_nat (length (Role_users st r)) @ '' user(s)''))], 400), st))
   \<and> (\<forall>r. Role_query_get st role_id = Some r \<and> Role_users st r = [] \<longrightarrow>
       fst (delete_role role_id st)
         = (JObj [(''message'', JStr ''Role deleted successfully'')], 200)
       \<and> Role_query_get (snd (delete_role role_id st)) role_id = None
       \<and> roles (snd (delete_role role_id st)) = filter (\<lambda>q. r_id q \<noteq> role_id) (roles st)
       \<and> users (snd (delete_role role_id st)) = users st
       \<and> permissions (snd (delete_role role_id st)) = permissions st)
   \<and> (\<forall>p. Permission_query_get st permission_id = Some p \<and> Permission_roles st p \<noteq> [] \<longrightarrow>
       delete_permission permission_id st
         = ((JObj [(''error'', JStr (''Cannot delete permission. It is assigned to ''
                @ str_nat (length (Permission_roles st p)) @ '' role(s)''))], 400), st))
   \<and> (\<forall>p. Permission_query_get st permission_id = Some p \<and> Permission_roles st p = [] \<longrightarrow>
       fst (delete_permission permission_id st)
         = (JObj [(''message'', JStr ''Permission deleted successfully'')], 200)
       \<and> Permission_query_get (snd (delete_permission permission_id st)) permission_id = None
       \<and> permissions (snd (delete_permission permission_id st))
           = filter (\<lambda>q. p_id q \<noteq> permission_id) (permissions st)
       \<and> users (snd (delete_permission permission_id st)) = users st
       \<and> roles (snd (delete_permission permission_id st)) = roles st)"
  by (auto simp: delete_role_def delete_permission_def get_or_404_def
      session_delete_role_def session_delete_permission_def Role_query_get_def
      Permission_query_get_def find_None_iff dest!: find_Some_D)

theorem delete_guards_witness:
  "Role_query_get seed_state 3 = Some employee_role
   \<and> Role_users seed_state employee_role = [employee_user]
   \<and> delete_role 3 seed_state
       = ((JObj [(''error'', JStr ''Cannot delete role. It is assigned to 1 user(s)'')], 400),
          seed_state)
   \<and> Role_users (snd (remove_role_from_user 3 3 seed_state)) employee_role = []
   \<and> fst (delete_role 3 (snd (remove_role_from_user 3 3 seed_state)))
       = (JObj [(''message'', JStr ''Role deleted successfully'')], 200)
   \<and> roles (snd (delete_role 3 (snd (remove_role_from_user 3 3 seed_state))))
       = [admin_role, hr_role]
   \<and> delete_permission 3 seed_state
       = ((JObj [(''error'', JStr ''Cannot delete permission. It is assigned to 1 role(s)'')],
           400), seed_state)
   \<and> fst (delete_permission 3 (snd (remove_permission_from_role 1 3 seed_state)))
       = (JObj [(''message'', JStr ''Permission deleted successfully'')], 200)"
proof -
  let ?st = "snd (remove_role_from_user 3 3 seed_state)"
  let ?st2 = "snd (remove_permission_from_role 1 3 seed_state)"
  have a: "Role_query_get seed_state 3 = Some employee_role"
    by (simp add: seed_defs rel_defs)
  have b: "Role_users seed_state employee_role = [employee_user]"
    by (simp add: seed_defs rel_defs)
  have c: "Role_query_get ?st 3 = Some employee_role"
    by (simp add: remove_role_from_user_def get_or_404_def Let_def seed_defs rel_defs)
  have d: "Role_users ?st employee_role = []"
    by (simp add: remove_role_from_user_def get_or_404_def Let_def seed_defs rel_defs)
  have e: "Permission_query_get seed_state 3 = Some (seed_permissions ! 2)"
    by (simp add: seed_defs rel_defs)
  have f: "Permission_roles seed_state (seed_permissions ! 2) = [admin_role]"
    by (simp add: seed_defs rel_defs)
  have g: "Permission_query_get ?st2 3 = Some (seed_permissions ! 2)"
    by (simp add: remove_permission_from_role_def get_or_404_def Let_def seed_defs rel_defs)
  have h: "Permission_roles ?st2 (seed_permissions ! 2) = []"
    by (simp add: remove_permission_from_role_def get_or_404_def Let_def seed_defs rel_defs)
  have i: "roles ?st = [admin_role, hr_role, employee_role]"
    by (simp add: remove_role_from_user_def get_or_404_def Let_def seed_defs rel_defs)
  have n1: "str_nat 1 = ''1''"
    by (simp add: str_nat.simps digit_char_def)
  have ids: "r_id admin_role = 1" "r_id hr_role = 2" "r_id employee_role = 3"
    by (simp_all add: seed_defs)
  show ?thesis
    using a b c d e f g h i n1 ids delete_guards [of seed_state 3 3]
      delete_guards [of ?st 3 3] delete_guards [of ?st2 3 3]
    by simp
qed

section \<open>Guards on association mutations\<close>

text \<open>
  Claim C5. For an existing user and role: assigning (with a role id the handler accepts
  as present, that is non-zero) a role the user already holds answers 400
  \<open>User already has this role\<close>, and removing a role the user does not hold answers 400
  \<open>User does not have this role\<close>. For an existing role and permission: assigning a
  permission the role already has answers 400 \<open>Role already has this permission\<close>, and
  removing one it does not have answers 400 \<open>Role does not have this permission\<close>. In
  all four cases the state is returned unchanged, so neither case is a silent no-op.
\<close>

theorem association_guards:
  "(\<forall>u r. User_query_get st user_id = Some u \<and> Role_query_get st role_id = Some r
        \<and> role_id \<noteq> 0 \<and> (user_id, role_id) \<in> set (user_roles st) \<longrightarrow>
      assign_role_to_user user_id (Some role_id) st
        = ((JObj [(''error'', JStr ''User already has this role'')], 400), st))
   \<and> (\<forall>u r. User_query_get st user_id = Some u \<and> Role_query_get st role_id = Some r
        \<and> (user_id, role_id) \<notin> set (user_roles st) \<longrightarrow>
      remove_role_from_user user_id role_id st
        = ((JObj [(''error'', JStr ''User does not have this role'')], 400), st))
   \<and> (\<forall>r p. Role_query_get st role_id = Some r \<and> Permission_query_get st permission_id = Some p
        \<and> permission_id \<noteq> 0 \<and> (role_id, permission_id) \<in> set (role_permissions st) \<longrightarrow>
      assign_permission_to_role role_id (Some permission_id) st
        = ((JObj [(''error'', JStr ''Role already has this permission'')], 400), st))
   \<and> (\<forall>r p. Role_query_get st role_id = Some r \<and> Permission_query_get st permission_id = Some p
        \<and> (role_id, permission_id) \<notin> set (role_permissions st) \<longrightarrow>
      remove_permission_from_role role_id permission_id st
        = ((JObj [(''error'', JStr ''Role does not have this permission'')], 400), st))"
  by (auto simp: assign_role_to_user_def remove_role_from_user_def
      assign_permission_to_role_def remove_permission_from_role_def get_or_404_def
      truthy_int_def rel_defs dest!: find_Some_D)

theorem association_guards_witness:
  "assign_role_to_user 3 (Some 3) seed_state
     = ((JObj [(''error'', JStr ''User already has this role'')], 400), seed_state)
   \<and> remove_role_from_user 3 1 seed_state
     = ((JObj [(''error'', JStr ''User does not have this role'')], 400), seed_state)
   \<and> assign_permission_to_role 3 (Some 1) seed_state
     = ((JObj [(''error'', JStr ''Role already has this permission'')], 400), seed_state)
   \<and> remove_permission_from_role 3 2 seed_state
     = ((JObj [(''error'', JStr ''Role does not have this permission'')], 400), seed_state)"
proof -
  have a: "User_query_get seed_state 3 = Some employee_user"
    by (simp add: seed_defs rel_defs)
  have b: "Role_query_get seed_state 3 = Some employee_role"
    "Role_query_get seed_state 1 = Some admin_role"
    by (simp_all add: seed_defs rel_defs)
  have c: "Permission_query_get seed_state 1 = Some (seed_permissions ! 0)"
    "Permission_query_get seed_state 2 = Some (seed_permissions ! 1)"
    by (simp_all add: seed_defs rel_defs)
  have d: "(3, 3) \<in> set (user_roles seed_state)" "(3, 1) \<notin> set (user_roles seed_state)"
    "(3, 1) \<in> set (role_permissions seed_state)"
    "(3, 2) \<notin> set (role_permissions seed_state)"
    by (simp_all add: seed_defs)
  show ?thesis
    using a b c d association_guards [of seed_state 3 3 1]
      association_guards [of seed_state 3 1 2]
      association_guards [of seed_state 3 3 2]
    by simp
qed

section \<open>Login policy\<close>



section \<open>Reset tokens: lookup and removal\<close>

text \<open>
  Claim C7 as stated: the token-to-user mapping is looked up and removed atomically, so a
  token is usable at most once. The handler looks the token up at its start and deletes
  it at its end. On the state where \<open>tok\<close> is stored for hr_manager, two requests with
  that token both pass the lookup before either has finished. The first then finishes
  with 200 and sets the password. The second finishes on the resulting state: it commits
  its own password as well, and only then fails on the deleted key, answered 500. The one
  token has set the password twice.
\<close>

theorem reset_password_interleaved_counterexample:
  "reset_password_lookup (Some ''tok'') (Some ''first'') pending_reset_state
     = Inr (hr_user, ''tok'', ''first'')
   \<and> reset_password_lookup (Some ''tok'') (Some ''second'') pending_reset_state
     = Inr (hr_user, ''tok'', ''second'')
   \<and> fst (reset_password_finish seed_bcrypt (hr_user, ''tok'', ''first'') pending_reset_state)
     = (JObj [(''message'', JStr ''Password reset successfully'')], 200)
   \<and> User_query_get
        (snd (reset_password_finish seed_bcrypt (hr_user, ''tok'', ''first'')
                pending_reset_state)) 2
     = Some (hr_user\<lparr>password := ''$2b$first''\<rparr>)
   \<and> reset_tokens
        (snd (reset_password_finish seed_bcrypt (hr_user, ''tok'', ''first'')
                pending_reset_state)) ''tok''
     = None
   \<and> status (reset_password_finish seed_bcrypt (hr_user, ''tok'', ''second'')
        (snd (reset_password_finish seed_bcrypt (hr_user, ''tok'', ''first'')
                pending_reset_state)))
     = 500
   \<and> User_query_get
        (snd (reset_password_finish seed_bcrypt (hr_user, ''tok'', ''second'')
          (snd (reset_password_finish seed_bcrypt (hr_user, ''tok'', ''first'')
                  pending_reset_state)))) 2
     = Some (hr_user\<lparr>password := ''$2b$second''\<rparr>)"
  by (simp add: reset_password_lookup_def reset_password_finish_def set_password_def
      commit_password_def truthy_str_def handle_exception_def status_def
      pending_reset_state_eq seed_defs rel_defs)

text \<open>
  Claim C7, amended. Lookup and removal are two steps of the handler, not one atomic
  step. For a request handled alone, with a non-empty token and new password: a token
  absent from \<open>reset_tokens\<close> is answered 400 \<open>Invalid or expired token\<close> with the state
  unchanged. A token mapped to the id of an existing user, with a password the hashing
  library accepts, is answered 200; afterwards that user's stored password is the hash of
  the new password, the token is no longer in the dictionary, every other token is as
  before, and a second request with the same token and any non-empty password is
  answered 400 \<open>Invalid or expired token\<close>. When the hashing library raises, the request
  is answered 500 and the state, the token included, is unchanged.
\<close>

theorem reset_password_single_use:
  assumes "token \<noteq> []" and "new_password \<noteq> []"
  shows "(reset_tokens st token = None \<longrightarrow>
            reset_password bc (Some token) (Some new_password) st
              = ((JObj [(''error'', JStr ''Invalid or expired token'')], 400), st))
       \<and> (reset_tokens st token = Some user_id \<and> user_id \<noteq> 0
            \<and> User_query_get st user_id = Some user
            \<and> generate_password_hash bc new_password = Inr h \<longrightarrow>
            fst (reset_password bc (Some token) (Some new_password) st)
              = (JObj [(''message'', JStr ''Password reset successfully'')], 200)
            \<and> User_query_get (snd (reset_password bc (Some token) (Some new_password) st))
                 user_id
                = Some (user\<lparr>password := h\<rparr>)
            \<and> reset_tokens (snd (reset_password bc (Some token) (Some new_password) st)) token
                = None
            \<and> (t \<noteq> token \<longrightarrow>
                 reset_tokens (snd (reset_password bc (Some token) (Some new_password) st)) t
                   = reset_tokens st t)
            \<and> (pw2 \<noteq> [] \<longrightarrow>
                 reset_password bc (Some token) (Some pw2)
                     (snd (reset_password bc (Some token) (Some new_password) st))
                   = ((JObj [(''error'', JStr ''Invalid or expired token'')], 400),
                      snd (reset_password bc (Some token) (Some new_password) st))))
       \<and> (reset_tokens st token = Some user_id \<and> user_id \<noteq> 0
            \<and> User_query_get st user_id = Some user
            \<and> generate_password_hash bc new_password = Inl e \<longrightarrow>
            reset_password bc (Some token) (Some new_password) st
              = ((JObj [(''error'', JStr (str_exn e))], 500), st))"
proof (intro conjI impI)
  assume "reset_tokens st token = None"
  then show "reset_password bc (Some token) (Some new_password) st
              = ((JObj [(''error'', JStr ''Invalid or expired token'')], 400), st)"
    using assms by (simp add: reset_password_def reset_password_lookup_def truthy_str_def)
next
  assume h: "reset_tokens st token = Some user_id \<and> user_id \<noteq> 0
            \<and> User_query_get st user_id = Some user
            \<and> generate_password_hash bc new_password = Inl e"
  then show "reset_password bc (Some token) (Some new_password) st
              = ((JObj [(''error'', JStr (str_exn e))], 500), st)"
    using assms
    by (simp add: reset_password_found [where user_id = user_id and user = user]
        reset_password_finish_def set_password_def handle_exception_def)
next
  assume h: "reset_tokens st token = Some user_id \<and> user_id \<noteq> 0
            \<and> User_query_get st user_id = Some user
            \<and> generate_password_hash bc new_password = Inr h"
  let ?st' = "snd (reset_password bc (Some token) (Some new_password) st)"
  have eq: "reset_password bc (Some token) (Some new_password) st
              = reset_password_finish bc (user, token, new_password) st"
    using assms h by (simp add: reset_password_found [where user_id = user_id])
  note acc = reset_password_finish_accepted [where st = st and token = token
      and user_id = user_id and user = user and bc = bc and new_password = new_password
      and h = h]
  show "fst (reset_password bc (Some token) (Some new_password) st)
              = (JObj [(''message'', JStr ''Password reset successfully'')], 200)"
    using h acc(1) by (simp add: eq)
  show "User_query_get ?st' user_id = Some (user\<lparr>password := h\<rparr>)"
    using h acc(2) by (simp add: eq)
  show gone: "reset_tokens ?st' token = None"
    using h acc(3) by (simp add: eq)
  show "reset_tokens ?st' t = reset_tokens st t" if "t \<noteq> token"
    using h acc(3) that by (simp add: eq)
  show "reset_password bc (Some token) (Some pw2) ?st'
          = ((JObj [(''error'', JStr ''Invalid or expired token'')], 400), ?st')"
    if "pw2 \<noteq> []"
    using assms gone that
    by (simp add: reset_password_def reset_password_lookup_def truthy_str_def)
qed

theorem reset_password_single_use_witness:
  "reset_password seed_bcrypt (Some ''tok'') (Some ''fresh'') seed_state
     = ((JObj [(''error'', JStr ''Invalid or expired token'')], 400), seed_state)
   \<and> fst (reset_password seed_bcrypt (Some ''tok'') (Some ''fresh'') pending_reset_state)
     = (JObj [(''message'', JStr ''Password reset successfully'')], 200)
   \<and> User_query_get
        (snd (reset_password seed_bcrypt (Some ''tok'') (Some ''fresh'') pending_reset_state)) 2
     = Some (hr_user\<lparr>password := ''$2b$fresh''\<rparr>)
   \<and> reset_tokens
        (snd (reset_password seed_bcrypt (Some ''tok'') (Some ''fresh'') pending_reset_state))
        ''tok'' = None
   \<and> fst (reset_password seed_bcrypt (Some ''tok'') (Some ''again'')
        (snd (reset_password seed_bcrypt (Some ''tok'') (Some ''fresh'') pending_reset_state)))
     = (JObj [(''error'', JStr ''Invalid or expired token'')], 400)
   \<and> reset_password seed_bcrypt (Some ''tok'') (Some long_password) pending_reset_state
     = ((JObj [(''error'', JStr ''password cannot be longer than 72 bytes'')], 500),
        pending_reset_state)"
proof -
  have a: "reset_tokens seed_state ''tok'' = None"
    by (simp add: seed_defs)
  have b: "reset_tokens pending_reset_state ''tok'' = Some 2"
    by (simp add: pending_reset_state_eq)
  have c: "User_query_get pending_reset_state 2 = Some hr_user"
    by (simp add: pending_reset_state_eq seed_defs rel_defs)
  have d: "generate_password_hash seed_bcrypt ''fresh'' = Inr ''$2b$fresh''"
    by (simp add: seed_defs)
  have e: "generate_password_hash seed_bcrypt long_password
             = Inl (ValueError ''password cannot be longer than 72 bytes'')"
    by (simp add: seed_defs long_password_def)
  have ne: "''tok'' \<noteq> []" "''fresh'' \<noteq> []" "''again'' \<noteq> []" "(2::int) \<noteq> 0"
    "long_password \<noteq> []"
    by (simp_all add: long_password_def)
  note t1 = reset_password_single_use [OF ne(1) ne(2), where st = seed_state
      and bc = seed_bcrypt]
  note t2 = reset_password_single_use [OF ne(1) ne(2), where st = pending_reset_state
      and bc = seed_bcrypt and user_id = 2 and user = hr_user and h = "''$2b$fresh''"
      and ?pw2.0 = "''again''"]
  note t3 = reset_password_single_use [OF ne(1) ne(5), where st = pending_reset_state
      and bc = seed_bcrypt and user_id = 2 and user = hr_user
      and e = "ValueError ''password cannot be longer than 72 bytes''"]
  from t1 a have p1: "reset_password seed_bcrypt (Some ''tok'') (Some ''fresh'') seed_state
     = ((JObj [(''error'', JStr ''Invalid or expired token'')], 400), seed_state)"
    by blast
  from t2 b c d ne(4) have p2:
    "fst (reset_password seed_bcrypt (Some ''tok'') (Some ''fresh'') pending_reset_state)
       = (JObj [(''message'', JStr ''Password reset successfully'')], 200)"
    "User_query_get
        (snd (reset_password seed_bcrypt (Some ''tok'') (Some ''fresh'') pending_reset_state)) 2
       = Some (hr_user\<lparr>password := ''$2b$fresh''\<rparr>)"
    "reset_tokens
        (snd (reset_password seed_bcrypt (Some ''tok'') (Some ''fresh'') pending_reset_state))
        ''tok'' = None"
    "reset_password seed_bcrypt (Some ''tok'') (Some ''again'')
        (snd (reset_password seed_bcrypt (Some ''tok'') (Some ''fresh'') pending_reset_state))
       = ((JObj [(''error'', JStr ''Invalid or expired token'')], 400),
          snd (reset_password seed_bcrypt (Some ''tok'') (Some ''fresh'') pending_reset_state))"
    using ne(3) by blast+
  from t3 b c e ne(4) have p3:
    "reset_password seed_bcrypt (Some ''tok'') (Some long_password) pending_reset_state
       = ((JObj [(''error'',
                  JStr (str_exn (ValueError ''password cannot be longer than 72 bytes'')))],
           500), pending_reset_state)"
    by blast
  show ?thesis
    unfolding p1 p2 p3 by (simp add: str_exn_def)
qed

section \<open>No self-deletion\<close>

text \<open>
  Claim C8. The handler \<open>delete_user\<close> answers 400 \<open>Cannot delete your own account\<close>
  whenever the path id is the caller's identity, whatever the caller's permissions, and
  leaves the state unchanged; so does the gated endpoint for a caller who holds
  \<open>user_delete\<close>. For such a caller and a different, existing user the endpoint answers
  200 and the user's row is removed.
\<close>

theorem delete_user_self_guard:
  "delete_user c c st = ((JObj [(''error'', JStr ''Cannot delete your own account'')], 400), st)
   \<and> (\<forall>caller. User_query_get st c = Some caller \<and> has_permission st caller ''user_delete'' \<longrightarrow>
        delete_user_route c c st
          = ((JObj [(''error'', JStr ''Cannot delete your own account'')], 400), st))
   \<and> (\<forall>caller target. User_query_get st c = Some caller
          \<and> has_permission st caller ''user_delete''
          \<and> user_id \<noteq> c \<and> User_query_get st user_id = Some target \<longrightarrow>
        fst (delete_user_route user_id c st)
          = (JObj [(''message'', JStr ''User deleted successfully'')], 200)
        \<and> User_query_get (snd (delete_user_route user_id c st)) user_id = None
        \<and> users (snd (delete_user_route user_id c st))
            = filter (\<lambda>v. u_id v \<noteq> user_id) (users st))"
  by (auto simp: delete_user_route_def require_permission_def delete_user_def get_or_404_def
      session_delete_user_def User_query_get_def find_filter_out dest!: find_Some_D)

theorem delete_user_self_guard_witness:
  "User_query_get seed_state 1 = Some admin_user
   \<and> has_permission seed_state admin_user ''user_delete''
   \<and> delete_user_route 1 1 seed_state
     = ((JObj [(''error'', JStr ''Cannot delete your own account'')], 400), seed_state)
   \<and> fst (delete_user_route 2 1 seed_state)
     = (JObj [(''message'', JStr ''User deleted successfully'')], 200)
   \<and> users (snd (delete_user_route 2 1 seed_state)) = [admin_user, employee_user]"
proof -
  have a: "User_query_get seed_state 1 = Some admin_user"
    "User_query_get seed_state 2 = Some hr_user"
    by (simp_all add: seed_defs rel_defs)
  have b: "has_permission seed_state admin_user ''user_delete''"
    by (simp add: has_permission_def seed_defs rel_defs)
  have c: "filter (\<lambda>v. u_id v \<noteq> 2) (users seed_state) = [admin_user, employee_user]"
    by (simp add: seed_defs)
  show ?thesis
    using a b c delete_user_self_guard [of 1 seed_state 1]
      delete_user_self_guard [of 1 seed_state 2]
    by simp
qed

section \<open>Wholesale replacement of associations on update\<close>




section \<open>A reset token whose user is gone\<close>

text \<open>
  Claim C10. When a non-empty token is in \<open>reset_tokens\<close> but no user has the id it maps
  to, \<open>reset_password\<close> answers 404 \<open>User not found\<close> and returns the state unchanged: the
  token is still in the dictionary and can be presented again. Whenever a token that was
  in the dictionary is no longer there after a request, that request presented this
  token, was answered 200 \<open>Password reset successfully\<close>, and the new password's hash is
  stored for the token's user.
\<close>

theorem reset_password_orphan_token:
  "(token \<noteq> [] \<and> pw \<noteq> [] \<and> reset_tokens st token = Some user_id
       \<and> user_id \<noteq> 0 \<and> User_query_get st user_id = None \<longrightarrow>
     reset_password bc (Some token) (Some pw) st
       = ((JObj [(''error'', JStr ''User not found'')], 404), st)
     \<and> reset_tokens (snd (reset_password bc (Some token) (Some pw) st)) token = Some user_id)
   \<and> (reset_tokens st t \<noteq> None
         \<and> reset_tokens (snd (reset_password bc data_token data_new_password st)) t = None \<longrightarrow>
       data_token = Some t
       \<and> fst (reset_password bc data_token data_new_password st)
           = (JObj [(''message'', JStr ''Password reset successfully'')], 200)
       \<and> (\<exists>uid user new_password h. reset_tokens st t = Some uid
             \<and> User_query_get st uid = Some user \<and> data_new_password = Some new_password
             \<and> generate_password_hash bc new_password = Inr h
             \<and> User_query_get (snd (reset_password bc data_token data_new_password st)) uid
                 = Some (user\<lparr>password := h\<rparr>)))"
proof (intro conjI impI)
  assume "token \<noteq> [] \<and> pw \<noteq> [] \<and> reset_tokens st token = Some user_id
       \<and> user_id \<noteq> 0 \<and> User_query_get st user_id = None"
  then have r: "reset_password bc (Some token) (Some pw) st
       = ((JObj [(''error'', JStr ''User not found'')], 404), st)"
    and s: "reset_tokens (snd (reset_password bc (Some token) (Some pw) st)) token = Some user_id"
    by (simp_all add: reset_password_def reset_password_lookup_def truthy_str_def)
  show "reset_password bc (Some token) (Some pw) st
       = ((JObj [(''error'', JStr ''User not found'')], 404), st)"
    by (rule r)
  show "reset_tokens (snd (reset_password bc (Some token) (Some pw) st)) token = Some user_id"
    by (rule s)
next
  assume a: "reset_tokens st t \<noteq> None
         \<and> reset_tokens (snd (reset_password bc data_token data_new_password st)) t = None"
  then have changed: "reset_tokens (snd (reset_password bc data_token data_new_password st))
                        \<noteq> reset_tokens st"
    by auto
  obtain k where k: "reset_password_lookup data_token data_new_password st = Inr k"
    using changed by (cases "reset_password_lookup data_token data_new_password st")
      (auto simp: reset_password_def)
  then obtain token new_password uid user where d: "data_token = Some token"
      "data_new_password = Some new_password" "token \<noteq> []" "new_password \<noteq> []"
      "reset_tokens st token = Some uid" "uid \<noteq> 0" "User_query_get st uid = Some user"
      "k = (user, token, new_password)"
    by (auto simp: reset_password_lookup_def truthy_str_def
        split: if_splits option.splits)
  have eq: "reset_password bc data_token data_new_password st
              = reset_password_finish bc (user, token, new_password) st"
    using k d(8) by (simp add: reset_password_def)
  obtain h where h: "generate_password_hash bc new_password = Inr h"
    using changed unfolding eq
    by (cases "generate_password_hash bc new_password")
      (auto simp: reset_password_finish_def set_password_def)
  note acc = reset_password_finish_accepted [OF d(5) d(7) h]
  have tok: "token = t"
    using a acc(3) unfolding eq by (auto split: if_splits)
  show "data_token = Some t" by (simp add: d(1) tok)
  show "fst (reset_password bc data_token data_new_password st)
           = (JObj [(''message'', JStr ''Password reset successfully'')], 200)"
    using acc(1) by (simp add: eq)
  show "\<exists>uid user new_password h. reset_tokens st t = Some uid
             \<and> User_query_get st uid = Some user \<and> data_new_password = Some new_password
             \<and> generate_password_hash bc new_password = Inr h
             \<and> User_query_get (snd (reset_password bc data_token data_new_password st)) uid
                 = Some (user\<lparr>password := h\<rparr>)"
    using d(2,5,7) h acc(2) tok unfolding eq by blast
qed

theorem reset_password_orphan_token_witness:
  "reset_tokens orphan_token_state ''tok'' = Some 2
   \<and> User_query_get orphan_token_state 2 = None
   \<and> reset_password seed_bcrypt (Some ''tok'') (Some ''fresh'') orphan_token_state
     = ((JObj [(''error'', JStr ''User not found'')], 404), orphan_token_state)
   \<and> reset_tokens
       (snd (reset_password seed_bcrypt (Some ''tok'') (Some ''fresh'') orphan_token_state))
       ''tok'' = Some 2"
proof -
  have a: "reset_tokens orphan_token_state ''tok'' = Some 2"
    by (simp add: orphan_token_state_eq)
  have b: "User_query_get orphan_token_state 2 = None"
    by (simp add: orphan_token_state_eq seed_defs rel_defs)
  have ne: "''tok'' \<noteq> []" "''fresh'' \<noteq> []" "(2::int) \<noteq> 0"
    by simp_all
  show ?thesis
    using a b ne
      reset_password_orphan_token [where token = "''tok''" and pw = "''fresh''"
        and st = orphan_token_state and user_id = 2 and bc = seed_bcrypt]
    by blast
qed

end
